theory Spec2Isabelle
  imports Main "HOL-Library.Word"
begin

section \<open>Shared data: bytes, blobs, thrown values, console\<close>

type_synonym byte = "8 word"

text \<open>
  A \<open>Blob\<close> is its bytes and its MIME type. \<open>new Blob(parts, {type})\<close> copies the bytes
  of the parts, in order, into a fresh blob. The type it is given is stored in ASCII
  lower case, and dropped when a character of it lies outside U+0020 to U+007E.
\<close>

datatype blob = Blob (blob_bytes: "byte list") (blob_type: string)

definition blob_size :: "blob \<Rightarrow> nat" where
  "blob_size b = length (blob_bytes b)"

definition ascii_lower :: "char \<Rightarrow> char" where
  "ascii_lower c =
     (if 65 \<le> (of_char c :: nat) \<and> (of_char c :: nat) \<le> 90 then char_of (of_char c + (32 :: nat)) else c)"

definition stored_type :: "string \<Rightarrow> string" where
  "stored_type ty =
     (if list_all (\<lambda>c. 32 \<le> (of_char c :: nat) \<and> (of_char c :: nat) \<le> 126) ty
      then map ascii_lower ty else [])"

definition new_Blob :: "blob list \<Rightarrow> string \<Rightarrow> blob" where
  "new_Blob parts ty = Blob (concat (map blob_bytes parts)) (stored_type ty)"

text \<open>
  What a \<open>catch (err)\<close> clause may receive: an \<open>Error\<close> or \<open>DOMException\<close> with its
  name and its message; \<open>null\<close> or \<open>undefined\<close>; or another primitive value, given by what
  it converts to as a string.
\<close>

datatype thrown = ThrownError string string | ThrownNullish | ThrownOther string

datatype log_level = LOG | WARN | ERROR

type_synonym console = "(log_level \<times> string) list"

section \<open>Main process: the \<open>transcribe-audio\<close> handler\<close>

type_synonym path = string
type_synonym filesystem = "path \<rightharpoonup> byte list"

text \<open>
  What \<open>groq.audio.transcriptions.create\<close> does: it rejects, or it resolves to a response
  whose \<open>text\<close> property may be missing.
\<close>

datatype create_outcome = CreateThrows thrown | CreateReturns "string option"

text \<open>
  The environment of one call of the handler: the credential, the temporary directory,
  the clock, and what each awaited operation does (\<open>None\<close>: it resolves).
\<close>

record main_env =
  GROQ_API_KEY :: "string option"
  tmpdir :: path
  Date_now :: string
  writeFile_throws :: "thrown option"
  create_result :: create_outcome
  unlink_throws :: "thrown option"

definition truthy :: "string option \<Rightarrow> bool" where
  "truthy v = (case v of None \<Rightarrow> False | Some t \<Rightarrow> t \<noteq> [])"

definition tempFilePath :: "main_env \<Rightarrow> path" where
  "tempFilePath env = tmpdir env @ ''/temp_audio_'' @ Date_now env @ ''.webm''"

text \<open>
  What the handler ends with when it throws: an \<open>Error\<close> with a message of its own, or
  the \<open>TypeError\<close> that reading \<open>error.message\<close> raises inside the catch clause when the
  value caught is \<open>null\<close> or \<open>undefined\<close>.
\<close>

datatype handler_error = HandlerError string | CatchTypeError

text \<open>
  The catch clause: \<open>throw new Error(`Transcription failed: ${error.message || error}`)\<close>.
  An error with an empty message is printed by its name.
\<close>

definition rethrow :: "thrown \<Rightarrow> handler_error" where
  "rethrow e =
     (case e of
        ThrownError name message \<Rightarrow>
          HandlerError (''Transcription failed: '' @ (if message = [] then name else message))
      | ThrownNullish \<Rightarrow> CatchTypeError
      | ThrownOther v \<Rightarrow> HandlerError (''Transcription failed: '' @ v))"

text \<open>
  The handler, with the file system passed through. \<open>Inl\<close> is what the handler
  throws, \<open>Inr\<close> the text it returns. The statements of the \<open>try\<close> block run
  in the order of the source; any of them that throws goes to the \<open>catch\<close> clause, which
  rethrows and touches no file.
\<close>

definition transcribe_audio ::
  "main_env \<Rightarrow> filesystem \<Rightarrow> byte list \<Rightarrow> (handler_error + string) \<times> filesystem" where
  "transcribe_audio env fs arrayBuffer =
     (if \<not> truthy (GROQ_API_KEY env) then (Inl (HandlerError ''API Key not configured.''), fs)
      else case writeFile_throws env of
          Some e \<Rightarrow> (Inl (rethrow e), fs)
        | None \<Rightarrow>
            let fs1 = fs(tempFilePath env \<mapsto> arrayBuffer) in
            (case create_result env of
               CreateThrows e \<Rightarrow> (Inl (rethrow e), fs1)
             | CreateReturns transcriptionResponse \<Rightarrow>
                 (case unlink_throws env of
                    Some e \<Rightarrow> (Inl (rethrow e), fs1)
                  | None \<Rightarrow>
                      let fs2 = fs1(tempFilePath env := None) in
                      if truthy transcriptionResponse
                      then (Inr (the transcriptionResponse), fs2)
                      else (Inl (rethrow (ThrownError ''Error''
                              ''Transcription failed: Unexpected API response format.'')), fs2))))"

section \<open>Capture session, first implementation: the \<open>useMicrophoneRecorder\<close> hook\<close>

text \<open>
  Both capture implementations own a segment buffer \<open>audioChunks\<close> and write to the
  console; the two fields are shared by their state records.
\<close>

record capture =
  audioChunks :: "blob list"
  console :: console

definition console_log :: "log_level \<Rightarrow> string \<Rightarrow> 'a capture_scheme \<Rightarrow> 'a capture_scheme" where
  "console_log lvl msg s = s\<lparr>console := console s @ [(lvl, msg)]\<rparr>"

datatype RecordingState = Idle | Recording | Stopped | Error

text \<open>The \<open>state\<close> attribute of a platform \<open>MediaRecorder\<close>.\<close>

datatype recorder_state = MR_inactive | MR_recording | MR_paused

text \<open>
  The hook's React state and its ref, as the latest \<open>set...\<close> calls have left them.
  \<open>mediaRecorderRef\<close> holds the state of the recorder the ref points to, \<open>unreferenced\<close> the
  recorders the hook created before it and no longer points to, each in the state it was
  left in.
\<close>

record hook_state = capture +
  stream :: "nat option"
  recordingState :: RecordingState
  error :: "string option"
  mediaRecorderRef :: "recorder_state option"
  unreferenced :: "recorder_state list"

definition hook_initial :: hook_state where
  "hook_initial = \<lparr>audioChunks = [], console = [], stream = None, recordingState = Idle,
                    error = None, mediaRecorderRef = None, unreferenced = []\<rparr>"

text \<open>
  The functions the hook returns are created anew by every render and read the state
  values of that render: \<open>stream\<close>, \<open>recordingState\<close>, \<open>error\<close> and \<open>audioChunks\<close> are
  constants of the closure. A \<open>set...\<close> call changes the state and not the constants; only
  the functions of a later render see the change. The ref is read and written in place.
\<close>

record hook_render =
  shown_stream :: "nat option"
  shown_recordingState :: RecordingState
  shown_error :: "string option"
  shown_audioChunks :: "blob list"

definition render :: "hook_state \<Rightarrow> hook_render" where
  "render s = \<lparr>shown_stream = stream s, shown_recordingState = recordingState s,
               shown_error = error s, shown_audioChunks = audioChunks s\<rparr>"

text \<open>
  \<open>err instanceof DOMException || err instanceof Error ? err : new Error(fallback)\<close>,
  as the message the \<open>error\<close> state then holds.
\<close>

definition error_of :: "thrown \<Rightarrow> string \<Rightarrow> string" where
  "error_of e fallback = (case e of ThrownError name message \<Rightarrow> message | _ \<Rightarrow> fallback)"

text \<open>
  \<open>getMicrophone\<close>, run by the mount effect, in its two stretches: the call, up to
  \<open>await getUserMedia\<close> (the argument says whether the platform has \<open>getUserMedia\<close>), and
  the rest once the request has settled (without \<open>getUserMedia\<close> the call has returned
  and nothing is left to settle).
\<close>

datatype getUserMedia_outcome = Unsupported | Granted nat | Denied thrown

definition getMicrophone_call :: "bool \<Rightarrow> hook_state \<Rightarrow> hook_state" where
  "getMicrophone_call supported s =
     (let s0 = s\<lparr>recordingState := Idle, error := None\<rparr> in
      if \<not> supported then
        s0\<lparr>error := Some ''Media Devices API or getUserMedia not supported in this browser/environment.'',
           recordingState := Error\<rparr>
      else console_log LOG ''Requesting microphone...'' s0)"

definition getMicrophone_settles :: "getUserMedia_outcome \<Rightarrow> hook_state \<Rightarrow> hook_state" where
  "getMicrophone_settles out s =
     (case out of
        Unsupported \<Rightarrow> s
      | Granted mediaStream \<Rightarrow>
          (console_log LOG ''Microphone access granted.'' s)
          \<lparr>stream := Some mediaStream, recordingState := Stopped\<rparr>
      | Denied err \<Rightarrow>
          (console_log ERROR ''Error accessing microphone:'' s)
          \<lparr>error := Some (error_of err ''An unknown error occurred during microphone access.''),
           stream := None, recordingState := Error\<rparr>)"

text \<open>The whole of \<open>getMicrophone\<close> when nothing else runs while the request is pending.\<close>

definition getMicrophone :: "getUserMedia_outcome \<Rightarrow> hook_state \<Rightarrow> hook_state" where
  "getMicrophone out s = getMicrophone_settles out (getMicrophone_call (out \<noteq> Unsupported) s)"

text \<open>
  What the platform does inside the \<open>try\<close> block of \<open>startRecording\<close>:
  \<open>new MediaRecorder\<close> throws, or \<open>mediaRecorder.start()\<close> throws, or recording starts.
\<close>

datatype start_outcome = ConstructorThrows thrown | StartThrows thrown | Started

text \<open>\<open>mediaRecorderRef.current = mediaRecorder\<close>: the ref lets go of the recorder it held.\<close>

definition assign_ref :: "recorder_state \<Rightarrow> hook_state \<Rightarrow> hook_state" where
  "assign_ref st s =
     s\<lparr>unreferenced := unreferenced s @ (case mediaRecorderRef s of None \<Rightarrow> [] | Some old \<Rightarrow> [old]),
       mediaRecorderRef := Some st\<rparr>"

text \<open>
  \<open>startRecording\<close> as created by the render \<open>r\<close> and called in state \<open>s\<close>: the guards
  read the render, the effects go to the state.
\<close>

definition startRecording_closure :: "hook_render \<Rightarrow> start_outcome \<Rightarrow> hook_state \<Rightarrow> hook_state" where
  "startRecording_closure r out s =
     (if shown_stream r = None then
        (let s1 = console_log WARN ''Cannot start recording: No microphone stream available.'' s;
             s2 = (if shown_error r = None
                   then s1\<lparr>error := Some ''No microphone stream available to start recording.''\<rparr>
                   else s1)
         in s2\<lparr>recordingState := Error\<rparr>)
      else if shown_recordingState r = Recording then
        console_log WARN ''Recording is already in progress.'' s
      else
        (let s1 = (console_log LOG ''Starting recording...'' s)\<lparr>audioChunks := [], error := None\<rparr> in
         case out of
           ConstructorThrows err \<Rightarrow>
             (console_log ERROR ''Failed to create MediaRecorder:'' s1)
             \<lparr>error := Some (error_of err ''An unknown error occurred while creating MediaRecorder.''),
              recordingState := Error\<rparr>
         | StartThrows err \<Rightarrow>
             (console_log ERROR ''Failed to create MediaRecorder:'' (assign_ref MR_inactive s1))
             \<lparr>error := Some (error_of err ''An unknown error occurred while creating MediaRecorder.''),
              recordingState := Error\<rparr>
         | Started \<Rightarrow>
             (assign_ref MR_recording s1)\<lparr>recordingState := Recording\<rparr>))"

text \<open>
  The three event handlers \<open>startRecording\<close> installs on the recorder. They read no
  state value of a render: \<open>ondataavailable\<close> appends by a functional update, which is
  applied to the buffer as it is when the event arrives.
\<close>

definition ondataavailable :: "blob \<Rightarrow> hook_state \<Rightarrow> hook_state" where
  "ondataavailable data s =
     (if blob_size data > 0
      then (console_log LOG ''Data available:'' s)\<lparr>audioChunks := audioChunks s @ [data]\<rparr>
      else s)"

definition onstop :: "hook_state \<Rightarrow> hook_state" where
  "onstop s = (console_log LOG ''Recording stopped. Chunks collected:'' s)\<lparr>recordingState := Stopped\<rparr>"

definition onerror :: "string \<Rightarrow> hook_state \<Rightarrow> hook_state" where
  "onerror err s = (console_log ERROR ''MediaRecorder error:'' s)\<lparr>error := Some err, recordingState := Error\<rparr>"

text \<open>
  \<open>stopRecording\<close> as created by the render \<open>r\<close>; the argument says whether
  \<open>mediaRecorderRef.current.stop()\<close> throws.
\<close>

definition stopRecording_closure :: "hook_render \<Rightarrow> thrown option \<Rightarrow> hook_state \<Rightarrow> hook_state" where
  "stopRecording_closure r stop_throws s =
     (if shown_recordingState r \<noteq> Recording then
        console_log WARN ''Cannot stop recording: Not currently recording.'' s
      else
        (let s1 = console_log LOG ''Stopping recording...'' s in
         if mediaRecorderRef s1 \<noteq> None \<and> mediaRecorderRef s1 \<noteq> Some MR_inactive
            \<and> mediaRecorderRef s1 \<noteq> Some MR_paused then
           (case stop_throws of
              None \<Rightarrow> s1\<lparr>mediaRecorderRef := Some MR_inactive\<rparr>
            | Some err \<Rightarrow>
                (console_log ERROR ''Error calling MediaRecorder stop():'' s1)
                \<lparr>error := Some (error_of err ''An unknown error occurred while stopping MediaRecorder.''),
                 recordingState := Error\<rparr>)
         else
           (let s2 = console_log WARN ''MediaRecorder not in an stoppable state, unable to stop.'' s1 in
            if shown_recordingState r = Recording then
              (console_log ERROR
                 ''Logic error: recordingState is recording but MediaRecorder state is unexpected.'' s2)
              \<lparr>error := Some ''Internal error: MediaRecorder state mismatch.'', recordingState := Error\<rparr>
            else s2\<lparr>recordingState := Stopped\<rparr>)))"

text \<open>
  \<open>getRecordedBlob(mimeType)\<close> as created by the render \<open>r\<close>: the blob it returns
  (\<open>None\<close> for \<open>null\<close>) and the state it leaves. The first argument says whether the
  \<open>Blob\<close> constructor throws.
\<close>

definition getRecordedBlob_closure ::
  "hook_render \<Rightarrow> thrown option \<Rightarrow> string \<Rightarrow> hook_state \<Rightarrow> blob option \<times> hook_state" where
  "getRecordedBlob_closure r blob_throws mimeType s =
     (if shown_recordingState r \<noteq> Stopped \<or> length (shown_audioChunks r) = 0 then
        (None, console_log WARN ''Cannot create blob: Recording is not stopped or no data collected.'' s)
      else
        (case blob_throws of
           None \<Rightarrow> (Some (new_Blob (shown_audioChunks r) mimeType), console_log LOG ''Created audio blob:'' s)
         | Some err \<Rightarrow>
             (None,
              (console_log ERROR ''Error creating blob:'' s)
              \<lparr>error := Some (error_of err ''An unknown error occurred while creating the audio blob.''),
               recordingState := Error\<rparr>)))"

text \<open>
  The same three functions taken from the render that shows the state they are called
  in: what a caller does who calls once after the component has re-rendered.
\<close>

definition startRecording :: "start_outcome \<Rightarrow> hook_state \<Rightarrow> hook_state" where
  "startRecording out s = startRecording_closure (render s) out s"

definition stopRecording :: "thrown option \<Rightarrow> hook_state \<Rightarrow> hook_state" where
  "stopRecording stop_throws s = stopRecording_closure (render s) stop_throws s"

definition getRecordedBlob :: "thrown option \<Rightarrow> string \<Rightarrow> hook_state \<Rightarrow> blob option \<times> hook_state" where
  "getRecordedBlob blob_throws mimeType s = getRecordedBlob_closure (render s) blob_throws mimeType s"

section \<open>Indicator state machine: \<open>morphState\<close> of the notch component\<close>

datatype NotchState = Inactive | Dormant | Prompted | Thinking | Answering

text \<open>
  The two callbacks \<open>morphState\<close> hands to \<open>setTimeout\<close>: the outer one commits the new
  state and arms the inner one, which clears the guard.
\<close>

datatype timer_action = CommitState NotchState | ClearMorphing

text \<open>
  The component's state as the latest \<open>set...\<close> calls have left it, the pending timers
  (due time in milliseconds and callback, in firing order) and the clock.
\<close>

record notch =
  currentState :: NotchState
  isMorphing :: bool
  timers :: "(nat \<times> timer_action) list"
  clock :: nat


text \<open>Timers fire in order of due time; among equal due times, in order of creation.\<close>

fun insert_timer :: "nat \<times> timer_action \<Rightarrow> (nat \<times> timer_action) list \<Rightarrow> (nat \<times> timer_action) list" where
  "insert_timer x [] = [x]"
| "insert_timer x (y # ys) = (if fst x < fst y then x # y # ys else y # insert_timer x ys)"

definition setTimeout :: "timer_action \<Rightarrow> nat \<Rightarrow> notch \<Rightarrow> notch" where
  "setTimeout callback delay s = s\<lparr>timers := insert_timer (clock s + delay, callback) (timers s)\<rparr>"

text \<open>
  \<open>morphState\<close> is created anew by every render, and \<open>currentState\<close> and \<open>isMorphing\<close>
  are constants of its closure: the values the render was given. \<open>setIsMorphing(true)\<close>
  changes the state, not the constant the guard reads; only the \<open>morphState\<close> of a later
  render sees it.
\<close>

record notch_render =
  seen_currentState :: NotchState
  seen_isMorphing :: bool

definition render_notch :: "notch \<Rightarrow> notch_render" where
  "render_notch s = \<lparr>seen_currentState = currentState s, seen_isMorphing = isMorphing s\<rparr>"

text \<open>\<open>morphState\<close> as created by the render \<open>r\<close> and called in state \<open>s\<close>.\<close>

definition morphState :: "notch_render \<Rightarrow> NotchState \<Rightarrow> notch \<Rightarrow> notch" where
  "morphState r newState s =
     (if seen_currentState r \<noteq> newState \<and> \<not> seen_isMorphing r
      then setTimeout (CommitState newState) 300 (s\<lparr>isMorphing := True\<rparr>)
      else s)"

fun fire :: "timer_action \<Rightarrow> notch \<Rightarrow> notch" where
  "fire (CommitState newState) s = setTimeout ClearMorphing 300 (s\<lparr>currentState := newState\<rparr>)"
| "fire ClearMorphing s = s\<lparr>isMorphing := False\<rparr>"

fun timer_weight :: "nat \<times> timer_action \<Rightarrow> nat" where
  "timer_weight (_, CommitState _) = 2"
| "timer_weight (_, ClearMorphing) = 1"

lemma sum_weight_insert_timer:
  "sum_list (map timer_weight (insert_timer x ts)) = timer_weight x + sum_list (map timer_weight ts)"
  by (induction ts) auto

text \<open>
  The event loop up to a deadline: every timer due by then fires, at its due time, the
  earliest first; a callback may arm a further timer, which fires too if it is due.
\<close>

function run_timers :: "nat \<Rightarrow> notch \<Rightarrow> notch" where
  "run_timers deadline s =
     (case timers s of
        [] \<Rightarrow> s\<lparr>clock := max (clock s) deadline\<rparr>
      | (due, callback) # rest \<Rightarrow>
          if due \<le> deadline
          then run_timers deadline (fire callback (s\<lparr>timers := rest, clock := max (clock s) due\<rparr>))
          else s\<lparr>clock := max (clock s) deadline\<rparr>)"
  by pat_completeness auto
termination
proof (relation "measure (\<lambda>(deadline, s). sum_list (map timer_weight (timers s)))")
  show "wf (measure (\<lambda>(deadline, s). sum_list (map timer_weight (timers s))))"
    by simp
next
  fix deadline :: nat and s :: notch and x :: "nat \<times> timer_action"
    and rest due callback
  assume "timers s = x # rest" "(due, callback) = x" "due \<le> deadline"
  then show "((deadline, fire callback (s\<lparr>timers := rest, clock := max (clock s) due\<rparr>)), (deadline, s))
      \<in> measure (\<lambda>(deadline, s). sum_list (map timer_weight (timers s)))"
    by (cases callback) (auto simp: setTimeout_def sum_weight_insert_timer)
qed

text \<open>\<open>elapse d\<close>: the next \<open>d\<close> milliseconds pass with no call from outside.\<close>

definition elapse :: "nat \<Rightarrow> notch \<Rightarrow> notch" where
  "elapse d s = run_timers (clock s + d) s"

section \<open>Capture session, second implementation: the renderer script\<close>

text \<open>
  The module-level variables of the renderer, the recorders the platform has created for
  it, and the calls that are suspended at an \<open>await\<close> or a \<open>setTimeout\<close>:
  \<^item> \<open>recorders\<close>: the state of every \<open>MediaRecorder\<close> constructed so far; a recorder is
    identified by its position, and \<open>mediaRecorder\<close> holds the position of the current one;
  \<^item> \<open>initializingStarts\<close>, \<open>waitingStarts\<close>, \<open>pendingStarts\<close>: how many calls of
    \<open>startRecording\<close> are suspended at \<open>await initializeAudio()\<close>, at the wait of 1000 ms
    after it, and at \<open>await getUserMedia\<close> (what a call does when it goes on from one
    of these does not depend on which call it is);
  \<^item> \<open>stopTimers\<close>: the callbacks \<open>stopRecording\<close> has scheduled and that have not run;
  \<^item> \<open>awaitingArrayBuffer\<close>: the calls of \<open>handleRecordingStop\<close> suspended at
    \<open>await audioBlob.arrayBuffer()\<close>, each with the bytes of its blob;
  \<^item> \<open>awaitingTranscription\<close>: those suspended at \<open>await transcribeAudio(arrayBuffer)\<close>;
  \<^item> \<open>uploads\<close>: the payload of every \<open>transcribeAudio\<close> call made so far;
  \<^item> \<open>inactive_stop_throws\<close>: a fact about the platform, whether \<open>stop()\<close> on a recorder
    that is already inactive throws \<open>InvalidStateError\<close> (as earlier versions of the
    MediaStream Recording text and of Chromium have it) or returns (as the current ones).
\<close>

record renderer = capture +
  recorders :: "recorder_state list"
  mediaRecorder :: "nat option"
  isRecording :: bool
  isAudioInitialized :: bool
  initializingStarts :: nat
  waitingStarts :: nat
  pendingStarts :: nat
  stopTimers :: nat
  awaitingArrayBuffer :: "byte list list"
  awaitingTranscription :: "byte list list"
  uploads :: "byte list list"
  inactive_stop_throws :: bool

definition renderer_initial :: renderer where
  "renderer_initial =
     \<lparr>audioChunks = [], console = [], recorders = [], mediaRecorder = None,
      isRecording = False, isAudioInitialized = False, initializingStarts = 0,
      waitingStarts = 0, pendingStarts = 0, stopTimers = 0,
      awaitingArrayBuffer = [], awaitingTranscription = [], uploads = [],
      inactive_stop_throws = False\<rparr>"

text \<open>
  How a \<open>startRecording\<close> suspended at \<open>await getUserMedia\<close> goes on: the await rejects
  or a later statement throws (control goes to its \<open>catch\<close>), or every statement of the
  \<open>try\<close> block runs.
\<close>

datatype start_result =
    GetUserMediaThrows thrown
  | MediaRecorderThrows thrown
  | RecorderStartThrows thrown
  | StartSucceeds

text \<open>What \<open>await window.electronAPI.transcribeAudio(arrayBuffer)\<close> gives back.\<close>

datatype ipc_result = Rejects thrown | Resolves "string option"

text \<open>
  \<open>window.electronAPI.simulateTyping\<close> is called by the renderer and defined nowhere in
  the repository. What the call does is an argument of the model: it throws (as a call
  of a missing method does), or it resolves to a success flag.
\<close>

datatype typing_outcome = TypingThrows thrown | TypingResolves bool

datatype event =
    StartupAudioSettles "thrown option"
  | ToggleRecording
  | InitializeAudioSettles "thrown option"
  | WaitElapses
  | StartResumes start_result
  | StopTimerFires
  | DataAvailable blob
  | StopEvent
  | ArrayBufferResolves
  | TranscribeSettles ipc_result typing_outcome

text \<open>
  The call \<open>initializeAudio().catch(...)\<close> the script makes when it is loaded, at the
  moment it settles (\<open>None\<close>: every await in it resolved).
\<close>

definition startup_initializeAudio :: "thrown option \<Rightarrow> renderer \<Rightarrow> renderer" where
  "startup_initializeAudio failure s =
     (case failure of
        None \<Rightarrow> (console_log LOG ''Audio stream initialized successfully'' s)\<lparr>isAudioInitialized := True\<rparr>
      | Some e \<Rightarrow>
          console_log ERROR ''Failed to initialize audio on startup:''
            (console_log ERROR ''Error initializing audio:'' s))"

text \<open>
  \<open>startRecording\<close> in its stretches. The call itself runs up to the first \<open>await\<close>:
  \<open>await initializeAudio()\<close> when \<open>isAudioInitialized\<close> is false, \<open>await getUserMedia\<close>
  otherwise.
\<close>

definition startRecording_call :: "renderer \<Rightarrow> renderer" where
  "startRecording_call s =
     (if \<not> isAudioInitialized s
      then (console_log LOG ''Initializing audio before first recording'' s)
           \<lparr>initializingStarts := initializingStarts s + 1\<rparr>
      else s\<lparr>pendingStarts := pendingStarts s + 1\<rparr>)"

text \<open>
  \<open>initializeAudio\<close>, called by \<open>startRecording\<close>, settles. When it has succeeded it has
  set \<open>isAudioInitialized\<close>, and \<open>startRecording\<close> waits 1000 ms; when it has failed it
  has logged and rethrown, and \<open>startRecording\<close> ends in its \<open>catch\<close>.
\<close>

definition startRecording_initialized :: "thrown option \<Rightarrow> renderer \<Rightarrow> renderer" where
  "startRecording_initialized failure s =
     (case failure of
        None \<Rightarrow>
          (console_log LOG ''Audio stream initialized successfully'' s)
          \<lparr>isAudioInitialized := True, waitingStarts := waitingStarts s + 1\<rparr>
      | Some e \<Rightarrow>
          console_log ERROR ''Error starting recording:''
            (console_log ERROR ''Error initializing audio:'' s))"

text \<open>The wait of 1000 ms is over: the call goes on to \<open>await getUserMedia\<close>.\<close>

definition startRecording_waited :: "renderer \<Rightarrow> renderer" where
  "startRecording_waited s = s\<lparr>pendingStarts := pendingStarts s + 1\<rparr>"

text \<open>
  The rest of \<open>startRecording\<close>, from the moment \<open>getUserMedia\<close> settles; it has no
  further \<open>await\<close>. The recorder is assigned to \<open>mediaRecorder\<close> and the buffer is reset
  before \<open>mediaRecorder.start()\<close> runs. (\<open>checkAudioLevels\<close> only reads the analyser.)
\<close>

definition startRecording_resume :: "start_result \<Rightarrow> renderer \<Rightarrow> renderer" where
  "startRecording_resume r s =
     (let s2 = s\<lparr>recorders := recorders s @ [MR_inactive],
                   mediaRecorder := Some (length (recorders s)),
                   audioChunks := []\<rparr>
      in case r of
           GetUserMediaThrows e \<Rightarrow> console_log ERROR ''Error starting recording:'' s
         | MediaRecorderThrows e \<Rightarrow> console_log ERROR ''Error starting recording:'' s
         | RecorderStartThrows e \<Rightarrow> console_log ERROR ''Error starting recording:'' s2
         | StartSucceeds \<Rightarrow>
             console_log LOG ''Recording started''
               (s2\<lparr>recorders := recorders s @ [MR_recording], isRecording := True\<rparr>))"

text \<open>The state of the recorder \<open>mediaRecorder\<close> refers to, if it refers to one.\<close>

definition current_recorder :: "renderer \<Rightarrow> recorder_state option" where
  "current_recorder s =
     (case mediaRecorder s of
        None \<Rightarrow> None
      | Some i \<Rightarrow> if i < length (recorders s) then Some (recorders s ! i) else None)"

text \<open>\<open>stopRecording\<close>: its return value and the state with the timer scheduled.\<close>

definition stopRecording_r :: "renderer \<Rightarrow> bool \<times> renderer" where
  "stopRecording_r s =
     (case current_recorder s of
        None \<Rightarrow> (False, s)
      | Some st \<Rightarrow>
          if st \<noteq> MR_inactive then (True, s\<lparr>stopTimers := stopTimers s + 1\<rparr>) else (False, s))"

text \<open>
  The callback \<open>stopRecording\<close> scheduled. It reads \<open>mediaRecorder\<close> when it runs.
  When \<open>stop()\<close> throws, the exception leaves the callback before \<open>isRecording = false\<close>.
\<close>

definition stopTimer_callback :: "renderer \<Rightarrow> renderer" where
  "stopTimer_callback s =
     (case mediaRecorder s of
        None \<Rightarrow> console_log ERROR ''Uncaught TypeError'' s
      | Some i \<Rightarrow>
          if current_recorder s = Some MR_recording \<or> current_recorder s = Some MR_paused
          then console_log LOG ''Recording stopped''
                 (s\<lparr>recorders := (recorders s)[i := MR_inactive], isRecording := False\<rparr>)
          else if inactive_stop_throws s
          then console_log ERROR ''Uncaught InvalidStateError'' s
          else console_log LOG ''Recording stopped'' (s\<lparr>isRecording := False\<rparr>))"

text \<open>The listener registered with \<open>window.electronAPI.onToggleRecording\<close>.\<close>

definition onToggleRecording :: "renderer \<Rightarrow> renderer" where
  "onToggleRecording s0 =
     (let s = console_log LOG ''onToggleRecording callback triggered in renderer'' s0 in
      if isRecording s then
        (case stopRecording_r (console_log LOG ''Stopping recording'' s) of
           (True, s1) \<Rightarrow> s1
         | (False, s1) \<Rightarrow>
             startRecording_call
               (console_log LOG ''Failed to stop recording, starting new recording'' s1))
      else startRecording_call (console_log LOG ''Starting recording'' s))"

text \<open>\<open>mediaRecorder.ondataavailable\<close> as the renderer sets it.\<close>

definition ondataavailable_r :: "blob \<Rightarrow> renderer \<Rightarrow> renderer" where
  "ondataavailable_r data s = s\<lparr>audioChunks := audioChunks s @ [data]\<rparr>"

text \<open>The \<open>finally\<close> clause of \<open>handleRecordingStop\<close>.\<close>

definition finally_clear :: "renderer \<Rightarrow> renderer" where
  "finally_clear s = console_log LOG ''Audio chunks cleared'' (s\<lparr>audioChunks := []\<rparr>)"

text \<open>
  \<open>handleRecordingStop\<close> in its three stretches: up to \<open>await audioBlob.arrayBuffer()\<close>;
  from there to \<open>await transcribeAudio(arrayBuffer)\<close> or, for a small buffer, to the
  \<open>return\<close>; and from the answer of the main process to the end. Building the blob
  and reading it back are taken to succeed: the blob is the chunks of the buffer at the
  moment the stop event fires, and later changes of the buffer do not reach it.
\<close>

definition handleRecordingStop :: "renderer \<Rightarrow> renderer" where
  "handleRecordingStop s =
     (let audioBlob = new_Blob (audioChunks s) ''audio/webm'' in
      (console_log LOG ''Audio blob created, size:'' (console_log LOG ''Handling recording stop'' s))
      \<lparr>awaitingArrayBuffer := awaitingArrayBuffer s @ [blob_bytes audioBlob]\<rparr>)"

definition handleRecordingStop_buffer :: "byte list \<Rightarrow> renderer \<Rightarrow> renderer" where
  "handleRecordingStop_buffer arrayBuffer s0 =
     (let s = console_log LOG ''ArrayBuffer created, size:'' s0 in
      if length arrayBuffer < 1000 then
        finally_clear (console_log WARN ''Audio data too small, possibly no audio captured'' s)
      else
        s\<lparr>awaitingTranscription := awaitingTranscription s @ [arrayBuffer],
          uploads := uploads s @ [arrayBuffer]\<rparr>)"

definition handleRecordingStop_response :: "ipc_result \<Rightarrow> typing_outcome \<Rightarrow> renderer \<Rightarrow> renderer" where
  "handleRecordingStop_response r ty s =
     finally_clear
       (case r of
          Rejects e \<Rightarrow> console_log ERROR ''Error in handleRecordingStop:'' s
        | Resolves response \<Rightarrow>
            (let s1 = console_log LOG ''Transcription response:'' s in
             if truthy response then
               (case ty of
                  TypingThrows e \<Rightarrow> console_log ERROR ''Error in handleRecordingStop:'' s1
                | TypingResolves success \<Rightarrow>
                    if success then console_log LOG ''Typing simulated successfully'' s1
                    else console_log ERROR ''Failed to simulate typing'' s1)
             else console_log WARN
                    ''Empty or invalid transcription result, skipping typing simulation'' s1))"

text \<open>
  One turn of the renderer's event loop. \<open>None\<close>: the event cannot happen in this state
  (a continuation resumes that was never suspended, a timer fires that was never set).
\<close>

fun step :: "event \<Rightarrow> renderer \<Rightarrow> renderer option" where
  "step (StartupAudioSettles failure) s = Some (startup_initializeAudio failure s)"
| "step ToggleRecording s = Some (onToggleRecording s)"
| "step (InitializeAudioSettles failure) s =
     (if initializingStarts s = 0 then None
      else Some (startRecording_initialized failure (s\<lparr>initializingStarts := initializingStarts s - 1\<rparr>)))"
| "step WaitElapses s =
     (if waitingStarts s = 0 then None
      else Some (startRecording_waited (s\<lparr>waitingStarts := waitingStarts s - 1\<rparr>)))"
| "step (StartResumes r) s =
     (if pendingStarts s = 0 then None
      else Some (startRecording_resume r (s\<lparr>pendingStarts := pendingStarts s - 1\<rparr>)))"
| "step StopTimerFires s =
     (if stopTimers s = 0 then None
      else Some (stopTimer_callback (s\<lparr>stopTimers := stopTimers s - 1\<rparr>)))"
| "step (DataAvailable data) s = Some (ondataavailable_r data s)"
| "step StopEvent s = Some (handleRecordingStop s)"
| "step ArrayBufferResolves s =
     (case awaitingArrayBuffer s of
        [] \<Rightarrow> None
      | arrayBuffer # rest \<Rightarrow> Some (handleRecordingStop_buffer arrayBuffer (s\<lparr>awaitingArrayBuffer := rest\<rparr>)))"
| "step (TranscribeSettles r ty) s =
     (case awaitingTranscription s of
        [] \<Rightarrow> None
      | arrayBuffer # rest \<Rightarrow> Some (handleRecordingStop_response r ty (s\<lparr>awaitingTranscription := rest\<rparr>)))"

fun run :: "event list \<Rightarrow> renderer \<Rightarrow> renderer option" where
  "run [] s = Some s"
| "run (e # es) s = (case step e s of None \<Rightarrow> None | Some s' \<Rightarrow> run es s')"

text \<open>The recorders that are recording, and the segments a stretch of events delivers.\<close>

definition active_recorders :: "renderer \<Rightarrow> nat" where
  "active_recorders s = length (filter (\<lambda>st. st = MR_recording) (recorders s))"

fun deliveries :: "event list \<Rightarrow> blob list" where
  "deliveries [] = []"
| "deliveries (DataAvailable data # es) = data # deliveries es"
| "deliveries (_ # es) = deliveries es"

text \<open>
  The events that can lie between the start of a recording and its stop event without
  starting another recording or ending the handling of an earlier one: deliveries,
  toggles that request the stop, and the stop timer.
\<close>

fun during_recording :: "event \<Rightarrow> bool" where
  "during_recording (DataAvailable _) = True"
| "during_recording StopTimerFires = True"
| "during_recording ToggleRecording = True"
| "during_recording _ = False"

text \<open>
  The events that deliver no segment and let no suspended \<open>startRecording\<close> go on:
  among them the steps in which the handling of an earlier stop goes on or ends.
\<close>

fun quiet :: "event \<Rightarrow> bool" where
  "quiet (DataAvailable _) = False"
| "quiet (StartResumes _) = False"
| "quiet _ = True"

section \<open>Temporary-file cleanup of the transcription handler\<close>

lemma transcribe_audio_success_cleanup:
  "transcribe_audio env fs buf = (Inr t, fs') \<Longrightarrow> fs' (tempFilePath env) = None"
  by (auto simp: transcribe_audio_def Let_def split: if_splits option.splits create_outcome.splits)

lemma transcribe_audio_format_cleanup:
  "truthy (GROQ_API_KEY env) \<Longrightarrow> writeFile_throws env = None \<Longrightarrow>
   create_result env = CreateReturns None \<Longrightarrow> unlink_throws env = None \<Longrightarrow>
   snd (transcribe_audio env fs buf) (tempFilePath env) = None"
  by (simp add: transcribe_audio_def truthy_def)

text \<open>
  C1. The specification asks that, whenever the handler has written the temporary file,
  the file is gone when the handler finishes, whatever the outcome. The code deletes the
  file only after the upload has resolved: when \<open>groq.audio.transcriptions.create\<close> rejects, control
  jumps to the \<open>catch\<close> clause and the file written before stays. Here: credential set,
  write succeeds, upload rejects with "network down", empty file system before the call.
  The handler fails with the wrapped upload error and the temporary file is still there,
  holding the audio.
\<close>

theorem transcribe_audio_upload_error_leaves_temp_file:
  "transcribe_audio
     \<lparr>GROQ_API_KEY = Some ''k'', tmpdir = ''/tmp'', Date_now = ''1700000000000'',
      writeFile_throws = None, create_result = CreateThrows (ThrownError ''Error'' ''network down''),
      unlink_throws = None\<rparr>
     Map.empty [1, 2, 3]
   = (Inl (HandlerError ''Transcription failed: network down''),
      [''/tmp/temp_audio_1700000000000.webm'' \<mapsto> [1, 2, 3]])"
  by (simp add: transcribe_audio_def truthy_def tempFilePath_def rethrow_def)

section \<open>The hook: start, append, and reading the blob\<close>

text \<open>
  What one call of \<open>startRecording\<close> and of \<open>getRecordedBlob\<close> does, whatever render the
  function was taken from: the guards are decided by what that render shows, the effects
  fall on the state as it is.
\<close>

lemma startRecording_closure_effects:
  "(shown_stream r \<noteq> None \<and> shown_recordingState r \<noteq> Recording \<longrightarrow>
      audioChunks (startRecording_closure r Started s) = []
      \<and> recordingState (startRecording_closure r Started s) = Recording
      \<and> error (startRecording_closure r Started s) = None
      \<and> mediaRecorderRef (startRecording_closure r Started s) = Some MR_recording)
   \<and> (shown_stream r = None \<longrightarrow>
      recordingState (startRecording_closure r out s) = Error
      \<and> error (startRecording_closure r out s)
          = (if shown_error r = None then Some ''No microphone stream available to start recording.''
             else error s)
      \<and> audioChunks (startRecording_closure r out s) = audioChunks s
      \<and> mediaRecorderRef (startRecording_closure r out s) = mediaRecorderRef s)"
  by (auto simp: startRecording_closure_def assign_ref_def console_log_def Let_def)

lemma getRecordedBlob_closure_effects:
  "(shown_recordingState r \<noteq> Stopped \<or> shown_audioChunks r = [] \<longrightarrow>
      getRecordedBlob_closure r blob_throws mimeType s
        = (None, s\<lparr>console := console s @
             [(WARN, ''Cannot create blob: Recording is not stopped or no data collected.'')]\<rparr>))
   \<and> (\<forall>b. fst (getRecordedBlob_closure r blob_throws mimeType s) = Some b \<longrightarrow>
        shown_recordingState r = Stopped \<and> shown_audioChunks r \<noteq> []
        \<and> b = new_Blob (shown_audioChunks r) mimeType
        \<and> audioChunks (snd (getRecordedBlob_closure r blob_throws mimeType s)) = audioChunks s)"
  by (auto simp: getRecordedBlob_closure_def console_log_def split: option.splits)

lemma startRecording_recording_has_stream:
  "recordingState (startRecording out s) = Recording \<Longrightarrow> stream (startRecording out s) \<noteq> None"
  by (auto simp: startRecording_def startRecording_closure_def render_def assign_ref_def console_log_def Let_def split: if_splits start_outcome.splits)

text \<open>
  C5. The specification asks that a data-available event that arrives while the session
  is not recording leaves the segment buffer as it is. Neither handler looks at the
  session state. In the hook, a recorder error puts the session into \<open>Error\<close> and the
  segment delivered next is appended all the same; in the renderer, the stop timer sets
  \<open>isRecording\<close> to false before the recorder delivers its segment, which is appended
  too.
\<close>

theorem append_outside_recording_grows_buffer:
  "recordingState (onerror ''device lost'' (startRecording Started (getMicrophone (Granted 0) hook_initial)))
     \<noteq> Recording
   \<and> length (audioChunks (onerror ''device lost'' (startRecording Started (getMicrophone (Granted 0) hook_initial)))) = 0
   \<and> length (audioChunks (ondataavailable (Blob [1, 2] ''audio/webm'')
        (onerror ''device lost'' (startRecording Started (getMicrophone (Granted 0) hook_initial))))) = 1
   \<and> map_option isRecording
        (run [StartupAudioSettles None, ToggleRecording, StartResumes StartSucceeds, ToggleRecording,
              StopTimerFires] renderer_initial)
       = Some False
   \<and> map_option audioChunks
        (run [StartupAudioSettles None, ToggleRecording, StartResumes StartSucceeds, ToggleRecording,
              StopTimerFires] renderer_initial)
       = Some []
   \<and> map_option audioChunks
        (run [StartupAudioSettles None, ToggleRecording, StartResumes StartSucceeds, ToggleRecording,
              StopTimerFires, DataAvailable (Blob [1, 2] ''audio/webm'')] renderer_initial)
       = Some [Blob [1, 2] ''audio/webm'']"
  by (simp add: onerror_def startRecording_def startRecording_closure_def render_def assign_ref_def getMicrophone_def getMicrophone_call_def getMicrophone_settles_def hook_initial_def ondataavailable_def
      blob_size_def console_log_def renderer_initial_def startup_initializeAudio_def
      onToggleRecording_def startRecording_call_def
      startRecording_resume_def stopRecording_r_def current_recorder_def stopTimer_callback_def
      ondataavailable_r_def)

text \<open>
  C5, as the code has it. A data-available event raises no error and changes neither the
  lifecycle state nor the stored error, whatever the state is; the buffer is not guarded
  by the state: the hook appends every segment that is not empty (an empty one is
  dropped), the renderer appends every segment, recording or not.
\<close>

theorem append_is_unguarded:
  "audioChunks (ondataavailable data s) = (if blob_size data > 0 then audioChunks s @ [data] else audioChunks s)
   \<and> recordingState (ondataavailable data s) = recordingState s
   \<and> error (ondataavailable data s) = error s
   \<and> step (DataAvailable data) r = Some (r\<lparr>audioChunks := audioChunks r @ [data]\<rparr>)"
  by (simp add: ondataavailable_def ondataavailable_r_def console_log_def)

text \<open>
  A call of \<open>startRecording\<close> made through a render that shows \<open>Recording\<close> (and the
  stream) only writes a warning to the console, whatever the state is by then: the
  buffer, the recorder, the lifecycle state and the stored error are untouched, and the
  platform is not asked for a recorder.
\<close>

lemma startRecording_shown_recording_is_noop:
  assumes "shown_recordingState r = Recording" and "shown_stream r \<noteq> None"
  shows "startRecording_closure r out s
         = s\<lparr>console := console s @ [(WARN, ''Recording is already in progress.'')]\<rparr>"
proof (cases "shown_stream r")
  case None
  with assms show ?thesis by simp
next
  case (Some mediaStream)
  with assms show ?thesis by (simp add: startRecording_closure_def console_log_def)
qed

text \<open>
  C6. The specification asks that the second of two start calls with no stop in between
  be a no-op with a warning. The guard of \<open>startRecording\<close> reads the \<open>recordingState\<close> of
  its render, and the first call changes the state by \<open>setRecordingState\<close>, not that
  value. Here the microphone has been granted and \<open>startRecording\<close> is called twice
  through the functions of that one render: the second call reads \<open>Stopped\<close> as the first
  did, writes no warning, resets the buffer and the error again, and constructs and
  starts a second recorder; the ref now points to the second recorder and the first one
  keeps recording with nothing left that refers to it.
\<close>

theorem second_start_through_same_render_starts_again:
  "startRecording_closure (render (getMicrophone (Granted 0) hook_initial)) Started
     (startRecording_closure (render (getMicrophone (Granted 0) hook_initial)) Started
        (getMicrophone (Granted 0) hook_initial))
   = \<lparr>audioChunks = [],
      console = [(LOG, ''Requesting microphone...''), (LOG, ''Microphone access granted.''),
                 (LOG, ''Starting recording...''), (LOG, ''Starting recording...'')],
      stream = Some 0, recordingState = Recording, error = None,
      mediaRecorderRef = Some MR_recording, unreferenced = [MR_recording]\<rparr>"
  by (simp add: startRecording_closure_def render_def assign_ref_def getMicrophone_def
      getMicrophone_call_def getMicrophone_settles_def hook_initial_def console_log_def)

text \<open>
  C7. For a call made through the render that shows the state it is made in: with a
  stream and a state other than \<open>Recording\<close>, a start in which the platform
  creates and starts the recorder empties the buffer, clears the stored error and moves
  the session to \<open>Recording\<close>. Without a stream, whatever the state, the call fails:
  it warns that no microphone stream is available, moves the session to \<open>Error\<close>, and
  stores the no-stream error unless an earlier error is already stored; the buffer is
  left alone and no recorder is created.
\<close>

theorem startRecording_contract:
  "(stream s \<noteq> None \<and> recordingState s \<in> {Idle, Stopped, Error} \<longrightarrow>
      audioChunks (startRecording Started s) = []
      \<and> recordingState (startRecording Started s) = Recording
      \<and> error (startRecording Started s) = None
      \<and> mediaRecorderRef (startRecording Started s) = Some MR_recording)
   \<and> (stream s = None \<longrightarrow>
      recordingState (startRecording out s) = Error
      \<and> error (startRecording out s)
          = Some (case error s of None \<Rightarrow> ''No microphone stream available to start recording.''
                               | Some e \<Rightarrow> e)
      \<and> console (startRecording out s)
          = console s @ [(WARN, ''Cannot start recording: No microphone stream available.'')]
      \<and> audioChunks (startRecording out s) = audioChunks s
      \<and> mediaRecorderRef (startRecording out s) = mediaRecorderRef s)"
  by (auto simp: startRecording_def startRecording_closure_def render_def assign_ref_def console_log_def Let_def)

theorem startRecording_contract_witness:
  "stream (ondataavailable (Blob [7] ''audio/webm'') (getMicrophone (Granted 0) hook_initial)) \<noteq> None
   \<and> recordingState (ondataavailable (Blob [7] ''audio/webm'') (getMicrophone (Granted 0) hook_initial))
        \<in> {Idle, Stopped, Error}
   \<and> audioChunks (ondataavailable (Blob [7] ''audio/webm'') (getMicrophone (Granted 0) hook_initial))
        = [Blob [7] ''audio/webm'']
   \<and> audioChunks (startRecording Started
        (ondataavailable (Blob [7] ''audio/webm'') (getMicrophone (Granted 0) hook_initial))) = []
   \<and> recordingState (startRecording Started
        (ondataavailable (Blob [7] ''audio/webm'') (getMicrophone (Granted 0) hook_initial))) = Recording
   \<and> stream hook_initial = None
   \<and> recordingState (startRecording Started hook_initial) = Error
   \<and> error (startRecording Started hook_initial)
        = Some ''No microphone stream available to start recording.''"
proof -
  let ?s = "ondataavailable (Blob [7] ''audio/webm'') (getMicrophone (Granted 0) hook_initial)"
  have st: "recordingState ?s = Stopped" and str: "stream ?s = Some 0"
    by (simp_all add: ondataavailable_def getMicrophone_def getMicrophone_call_def getMicrophone_settles_def hook_initial_def console_log_def blob_size_def)
  have chunks: "audioChunks ?s = [Blob [7] ''audio/webm'']"
    by (simp add: ondataavailable_def getMicrophone_def getMicrophone_call_def getMicrophone_settles_def hook_initial_def console_log_def blob_size_def)
  have none: "stream hook_initial = None" "error hook_initial = None"
    by (simp_all add: hook_initial_def)
  from startRecording_contract [of ?s Started] st str
  have started: "audioChunks (startRecording Started ?s) = []
      \<and> recordingState (startRecording Started ?s) = Recording"
    by simp
  from startRecording_contract [of hook_initial Started] none
  have failed: "recordingState (startRecording Started hook_initial) = Error
      \<and> error (startRecording Started hook_initial)
          = Some ''No microphone stream available to start recording.''"
    by simp
  from started failed st str chunks none show ?thesis by simp
qed

text \<open>
  C10. Called through the render that shows the state it is called in,
  \<open>getRecordedBlob\<close> returns \<open>null\<close> whenever the state is not \<open>Stopped\<close> or the
  buffer is empty; it then throws nothing and changes nothing but the console, where it
  leaves a warning. It returns a blob only if the state is \<open>Stopped\<close> and the buffer holds
  a chunk, and that blob is the chunks in order with the MIME type asked for (as the
  \<open>Blob\<close> constructor stores it).
\<close>

theorem getRecordedBlob_null_unless_stopped_with_data:
  "(recordingState s \<noteq> Stopped \<or> audioChunks s = [] \<longrightarrow>
      getRecordedBlob blob_throws mimeType s
        = (None, s\<lparr>console := console s @
             [(WARN, ''Cannot create blob: Recording is not stopped or no data collected.'')]\<rparr>))
   \<and> (\<forall>b. fst (getRecordedBlob blob_throws mimeType s) = Some b \<longrightarrow>
        recordingState s = Stopped \<and> audioChunks s \<noteq> [] \<and> b = new_Blob (audioChunks s) mimeType
        \<and> audioChunks (snd (getRecordedBlob blob_throws mimeType s)) = audioChunks s)"
  by (auto simp: getRecordedBlob_def getRecordedBlob_closure_def render_def console_log_def split: option.splits)

theorem getRecordedBlob_null_unless_stopped_with_data_witness:
  "recordingState (startRecording Started (getMicrophone (Granted 0) hook_initial)) \<noteq> Stopped
   \<and> fst (getRecordedBlob None ''audio/webm''
        (startRecording Started (getMicrophone (Granted 0) hook_initial))) = None
   \<and> audioChunks (getMicrophone (Granted 0) hook_initial) = []
   \<and> fst (getRecordedBlob None ''audio/webm'' (getMicrophone (Granted 0) hook_initial)) = None
   \<and> fst (getRecordedBlob None ''audio/webm''
        (onstop (ondataavailable (Blob [7, 8] ''audio/webm'')
           (stopRecording None (startRecording Started (getMicrophone (Granted 0) hook_initial))))))
       = Some (Blob [7, 8] ''audio/webm'')
   \<and> recordingState (onstop (ondataavailable (Blob [7, 8] ''audio/webm'')
           (stopRecording None (startRecording Started (getMicrophone (Granted 0) hook_initial))))) = Stopped"
proof -
  let ?rec = "startRecording Started (getMicrophone (Granted 0) hook_initial)"
  let ?ready = "getMicrophone (Granted 0) hook_initial"
  let ?done = "onstop (ondataavailable (Blob [7, 8] ''audio/webm'') (stopRecording None ?rec))"
  have a: "recordingState ?rec \<noteq> Stopped"
    by (simp add: startRecording_def startRecording_closure_def render_def assign_ref_def getMicrophone_def getMicrophone_call_def getMicrophone_settles_def hook_initial_def console_log_def)
  have b: "audioChunks ?ready = []"
    by (simp add: getMicrophone_def getMicrophone_call_def getMicrophone_settles_def hook_initial_def console_log_def)
  have c: "fst (getRecordedBlob None ''audio/webm'' ?done) = Some (Blob [7, 8] ''audio/webm'')"
    by (simp add: getRecordedBlob_def getRecordedBlob_closure_def render_def onstop_def ondataavailable_def stopRecording_def stopRecording_closure_def
        startRecording_def startRecording_closure_def render_def assign_ref_def getMicrophone_def getMicrophone_call_def getMicrophone_settles_def hook_initial_def console_log_def blob_size_def
        new_Blob_def stored_type_def ascii_lower_def)
  from getRecordedBlob_null_unless_stopped_with_data [of ?rec None "''audio/webm''"]
    getRecordedBlob_null_unless_stopped_with_data [of ?ready None "''audio/webm''"]
    getRecordedBlob_null_unless_stopped_with_data [of ?done None "''audio/webm''"]
    a b c
  show ?thesis by simp
qed

section \<open>The indicator: requests during a morph\<close>

text \<open>
  A request made through a render that already shows the guard changes nothing, and it
  arms no timer, so it is not queued. After a request for \<open>Thinking\<close> in state \<open>Dormant\<close>
  and a re-render \<open>d\<close> milliseconds later, while the guard is still set, a request for
  \<open>Answering\<close> is dropped and the indicator ends in \<open>Thinking\<close>.
\<close>

lemma morphState_guarded_render_drops:
  "seen_isMorphing r \<Longrightarrow> morphState r newState s = s"
  by (simp add: morphState_def)

lemma morph_request_after_rerender_is_dropped:
  assumes "currentState s = Dormant" and "\<not> isMorphing s" and "timers s = []"
    and "d < 600" and "600 \<le> d + e"
  shows "morphState (render_notch (elapse d (morphState (render_notch s) Thinking s))) Answering
           (elapse d (morphState (render_notch s) Thinking s))
         = elapse d (morphState (render_notch s) Thinking s)
     \<and> currentState (elapse e (elapse d (morphState (render_notch s) Thinking s))) = Thinking"
proof (cases "d < 300")
  case True
  with assms show ?thesis
    by (simp add: elapse_def morphState_def render_notch_def setTimeout_def)
next
  case False
  with assms show ?thesis
    by (simp add: elapse_def morphState_def render_notch_def setTimeout_def)
qed


section \<open>The renderer: what is uploaded, and what a failure leaves behind\<close>

lemma step_during_recording:
  assumes "during_recording e" and "step e s = Some s'"
  shows "audioChunks s' = audioChunks s @ deliveries [e]
         \<and> uploads s' = uploads s \<and> awaitingArrayBuffer s' = awaitingArrayBuffer s"
proof (cases e)
  case ToggleRecording
  with assms show ?thesis
    by (auto simp: onToggleRecording_def stopRecording_r_def startRecording_call_def console_log_def
        Let_def split: option.splits if_splits)
next
  case StopTimerFires
  with assms show ?thesis
    by (auto simp: stopTimer_callback_def console_log_def split: option.splits if_splits)
next
  case (DataAvailable data)
  with assms show ?thesis by (auto simp: ondataavailable_r_def)
qed (use assms in simp_all)

lemma run_during_recording:
  assumes "\<forall>e \<in> set es. during_recording e" and "run es s = Some s'"
  shows "audioChunks s' = audioChunks s @ deliveries es
         \<and> uploads s' = uploads s \<and> awaitingArrayBuffer s' = awaitingArrayBuffer s"
  using assms
proof (induction es arbitrary: s)
  case Nil
  then show ?case by simp
next
  case (Cons e es)
  from Cons.prems obtain s1 where s1: "step e s = Some s1" and rest: "run es s1 = Some s'"
    by (auto split: option.splits)
  from Cons.prems have e: "during_recording e" and es: "\<forall>e \<in> set es. during_recording e"
    by simp_all
  have dl: "deliveries (e # es) = deliveries [e] @ deliveries es"
    by (cases e) simp_all
  from step_during_recording [OF e s1] Cons.IH [OF es rest] dl show ?case by simp
qed

lemma response_changes_buffer_and_console:
  "handleRecordingStop_response r ty s
     = s\<lparr>audioChunks := [], console := console (handleRecordingStop_response r ty s)\<rparr>"
  by (simp add: handleRecordingStop_response_def finally_clear_def console_log_def Let_def
      split: ipc_result.splits typing_outcome.splits)

lemma response_clears_buffer:
  "audioChunks (handleRecordingStop_response r ty s) = []"
  by (simp add: handleRecordingStop_response_def finally_clear_def console_log_def)

lemma run_append:
  "run (xs @ ys) s = (case run xs s of None \<Rightarrow> None | Some s' \<Rightarrow> run ys s')"
  by (induction xs arbitrary: s) (simp_all split: option.splits)

lemma step_quiet_keeps_buffer_empty:
  assumes "quiet e" and "step e s = Some s'" and "audioChunks s = []"
  shows "audioChunks s' = []"
proof (cases e)
  case ToggleRecording
  with assms show ?thesis
    by (auto simp: onToggleRecording_def stopRecording_r_def startRecording_call_def console_log_def
        Let_def split: option.splits if_splits)
next
  case StopTimerFires
  with assms show ?thesis
    by (auto simp: stopTimer_callback_def console_log_def split: option.splits if_splits)
next
  case StopEvent
  with assms show ?thesis by (auto simp: handleRecordingStop_def console_log_def Let_def)
next
  case ArrayBufferResolves
  with assms show ?thesis
    by (auto simp: handleRecordingStop_buffer_def finally_clear_def console_log_def Let_def
        split: list.splits if_splits)
next
  case (TranscribeSettles r ty)
  with assms show ?thesis
    by (auto simp: response_clears_buffer split: list.splits)
next
  case (StartupAudioSettles failure)
  with assms show ?thesis
    by (auto simp: startup_initializeAudio_def console_log_def split: option.splits)
next
  case (InitializeAudioSettles failure)
  with assms show ?thesis
    by (auto simp: startRecording_initialized_def console_log_def split: option.splits if_splits)
next
  case WaitElapses
  with assms show ?thesis
    by (auto simp: startRecording_waited_def split: if_splits)
qed (use assms in simp_all)

lemma run_quiet_keeps_buffer_empty:
  assumes "\<forall>e \<in> set es. quiet e" and "run es s = Some s'" and "audioChunks s = []"
  shows "audioChunks s' = [] \<and> deliveries es = []"
  using assms
proof (induction es arbitrary: s)
  case Nil
  then show ?case by simp
next
  case (Cons e es)
  from Cons.prems obtain s1 where s1: "step e s = Some s1" and rest: "run es s1 = Some s'"
    by (auto split: option.splits)
  from Cons.prems have e: "quiet e" and es: "\<forall>e \<in> set es. quiet e"
    by simp_all
  from step_quiet_keeps_buffer_empty [OF e s1 Cons.prems(3)] have "audioChunks s1 = []" .
  from Cons.IH [OF es rest this] e show ?case by (cases e) simp_all
qed

lemma start_succeeds_resets_buffer:
  assumes "step (StartResumes StartSucceeds) s = Some s0"
  shows "audioChunks s0 = [] \<and> isRecording s0 \<and> uploads s0 = uploads s
         \<and> awaitingArrayBuffer s0 = awaitingArrayBuffer s"
  using assms
  by (auto simp: startRecording_resume_def console_log_def Let_def split: if_splits)

text \<open>
  C2. When a suspended \<open>handleRecordingStop\<close> goes on with an array buffer of fewer than
  1000 bytes (none included), it makes no \<open>transcribeAudio\<close> call and leaves no
  continuation waiting for one; it writes the warning "Audio data too small, possibly no
  audio captured" to the console and clears the buffer. With 1000 bytes or more it
  uploads the buffer and does not write that warning, so the warning tells the two
  outcomes apart.
\<close>

theorem small_recording_is_not_uploaded:
  assumes "awaitingArrayBuffer s = arrayBuffer # rest"
  shows "\<exists>s'. step ArrayBufferResolves s = Some s' \<and>
      (if length arrayBuffer < 1000
       then uploads s' = uploads s
            \<and> awaitingTranscription s' = awaitingTranscription s
            \<and> console s' = console s @
                 [(LOG, ''ArrayBuffer created, size:''),
                  (WARN, ''Audio data too small, possibly no audio captured''),
                  (LOG, ''Audio chunks cleared'')]
       else uploads s' = uploads s @ [arrayBuffer]
            \<and> awaitingTranscription s' = awaitingTranscription s @ [arrayBuffer]
            \<and> console s' = console s @ [(LOG, ''ArrayBuffer created, size:'')])"
  using assms
  by (simp add: handleRecordingStop_buffer_def finally_clear_def console_log_def)

theorem small_recording_is_not_uploaded_witness:
  "awaitingArrayBuffer (handleRecordingStop
       (renderer_initial\<lparr>audioChunks := [Blob (replicate 999 7) ''audio/webm'']\<rparr>))
     = [replicate 999 7]
   \<and> map_option uploads (step ArrayBufferResolves (handleRecordingStop
       (renderer_initial\<lparr>audioChunks := [Blob (replicate 999 7) ''audio/webm'']\<rparr>))) = Some []
   \<and> map_option awaitingTranscription (step ArrayBufferResolves (handleRecordingStop
       (renderer_initial\<lparr>audioChunks := [Blob (replicate 999 7) ''audio/webm'']\<rparr>))) = Some []"
proof -
  let ?s = "handleRecordingStop (renderer_initial\<lparr>audioChunks := [Blob (replicate 999 7) ''audio/webm'']\<rparr>)"
  have q: "awaitingArrayBuffer ?s = replicate 999 7 # []"
    by (simp add: handleRecordingStop_def renderer_initial_def new_Blob_def console_log_def)
  have u: "uploads ?s = []" "awaitingTranscription ?s = []"
    by (simp_all add: handleRecordingStop_def renderer_initial_def new_Blob_def console_log_def)
  from small_recording_is_not_uploaded [OF q] obtain s' where
    "step ArrayBufferResolves ?s = Some s'" "uploads s' = uploads ?s"
    "awaitingTranscription s' = awaitingTranscription ?s"
    by auto
  with q u show ?thesis by simp
qed

text \<open>
  What holds of a recording that no earlier stop handler disturbs. A recording starts
  when a suspended \<open>startRecording\<close> runs to its end. Until the first segment arrives
  anything may happen but a further start; from then on let deliveries follow, mixed
  with toggles and stop timers, and then the recorder's stop event. At that point the
  buffer holds exactly the segments delivered since the start, in the order of delivery;
  the stop handler turns them into one array buffer, their bytes concatenated in that
  order; and when no earlier stop handler is still waiting for its array buffer and the
  bytes number at least 1000, the handler's next stretch makes exactly one upload, of
  that array buffer.
\<close>

lemma undisturbed_stop_uploads_delivered_segments:
  assumes "step (StartResumes StartSucceeds) s = Some started"
    and "\<forall>e \<in> set before. quiet e" and "run before started = Some first"
    and "\<forall>e \<in> set es. during_recording e" and "run es first = Some stopped"
  shows "deliveries (before @ es) = deliveries es
     \<and> audioChunks stopped = deliveries es
     \<and> step StopEvent stopped = Some (handleRecordingStop stopped)
     \<and> awaitingArrayBuffer (handleRecordingStop stopped)
          = awaitingArrayBuffer stopped @ [concat (map blob_bytes (deliveries es))]
     \<and> (awaitingArrayBuffer stopped = [] \<and> 1000 \<le> length (concat (map blob_bytes (deliveries es))) \<longrightarrow>
          map_option uploads (step ArrayBufferResolves (handleRecordingStop stopped))
            = Some (uploads stopped @ [concat (map blob_bytes (deliveries es))]))"
proof -
  from start_succeeds_resets_buffer [OF assms(1)] have "audioChunks started = []"
    by simp
  from run_quiet_keeps_buffer_empty [OF assms(2) assms(3) this]
  have first: "audioChunks first = []" and none: "deliveries before = []"
    by simp_all
  have split: "deliveries (before @ es) = deliveries before @ deliveries es"
    by (induction before rule: deliveries.induct) simp_all
  from run_during_recording [OF assms(4) assms(5)] first
  have chunks: "audioChunks stopped = deliveries es"
    by simp
  have queued: "awaitingArrayBuffer (handleRecordingStop stopped)
      = awaitingArrayBuffer stopped @ [concat (map blob_bytes (deliveries es))]"
    using chunks by (simp add: handleRecordingStop_def new_Blob_def console_log_def)
  have up: "uploads (handleRecordingStop stopped) = uploads stopped"
    by (simp add: handleRecordingStop_def console_log_def)
  have sent: "map_option uploads (step ArrayBufferResolves (handleRecordingStop stopped))
        = Some (uploads stopped @ [concat (map blob_bytes (deliveries es))])"
    if "awaitingArrayBuffer stopped = []" "1000 \<le> length (concat (map blob_bytes (deliveries es)))"
    using that queued up
    by (simp add: handleRecordingStop_buffer_def console_log_def del: length_concat)
  from split none chunks queued sent show ?thesis by simp
qed

text \<open>
  The scenario of the specification: a start, three segments of 4000 bytes, a stop. One
  upload is made, of 12000 bytes.
\<close>

lemma three_segments_one_upload:
  "map_option uploads
     (run [StartupAudioSettles None, ToggleRecording, StartResumes StartSucceeds,
           DataAvailable (Blob (replicate 4000 1) ''audio/webm''),
           DataAvailable (Blob (replicate 4000 2) ''audio/webm''),
           ToggleRecording, StopTimerFires,
           DataAvailable (Blob (replicate 4000 3) ''audio/webm''),
           StopEvent, ArrayBufferResolves] renderer_initial)
     = Some [replicate 4000 1 @ replicate 4000 2 @ replicate 4000 3]
   \<and> length (replicate 4000 (1::byte) @ replicate 4000 2 @ replicate 4000 3) = 12000"
  by (simp add: renderer_initial_def startup_initializeAudio_def onToggleRecording_def
      startRecording_call_def startRecording_resume_def stopRecording_r_def current_recorder_def
      stopTimer_callback_def ondataavailable_r_def handleRecordingStop_def
      handleRecordingStop_buffer_def new_Blob_def console_log_def)


text \<open>
  C4. The specification asks that, whatever the sequence of start and stop requests, at
  most one recorder is active. The toggle listener starts a recording whenever
  \<open>isRecording\<close> is false, and \<open>startRecording\<close> sets \<open>isRecording\<close> only after it has
  awaited the stream. Here the audio is initialized at load time and two toggle signals
  arrive before the first call has its stream: both start a recording, two recorders are
  created and started, \<open>mediaRecorder\<close> refers to the second one, and the first one keeps
  recording with nothing left that could stop it.
\<close>

theorem two_toggles_start_two_recorders:
  "map_option (\<lambda>s. (recorders s, mediaRecorder s, active_recorders s))
     (run [StartupAudioSettles None, ToggleRecording, ToggleRecording,
           StartResumes StartSucceeds, StartResumes StartSucceeds] renderer_initial)
   = Some ([MR_recording, MR_recording], Some 1, 2)"
  by (simp add: renderer_initial_def startup_initializeAudio_def onToggleRecording_def
      startRecording_call_def startRecording_resume_def console_log_def active_recorders_def)

text \<open>
  C9. When the transcription request of a suspended \<open>handleRecordingStop\<close> is rejected,
  the handler logs the error and runs its \<open>finally\<close> clause. Of the session it changes
  the buffer, which it empties, and nothing else: \<open>isRecording\<close>, the current recorder,
  the recorders themselves, the pending starts and stop timers and the uploads made are
  what they were, so the next toggle does what it would have done. A request that is
  answered leaves the same state but for the console.
\<close>

theorem failed_transcription_keeps_session:
  assumes "awaitingTranscription s = arrayBuffer # rest"
  shows "step (TranscribeSettles (Rejects e) ty) s
       = Some (s\<lparr>audioChunks := [],
                 console := console s @ [(ERROR, ''Error in handleRecordingStop:''),
                                         (LOG, ''Audio chunks cleared'')],
                 awaitingTranscription := rest\<rparr>)
     \<and> (\<exists>c. step (TranscribeSettles (Resolves response) ty') s
            = map_option (\<lambda>s'. s'\<lparr>console := c\<rparr>) (step (TranscribeSettles (Rejects e) ty) s))"
proof -
  let ?resumed = "s\<lparr>awaitingTranscription := rest\<rparr>"
  let ?c = "console (handleRecordingStop_response (Resolves response) ty' ?resumed)"
  have failure: "step (TranscribeSettles (Rejects e) ty) s
       = Some (s\<lparr>audioChunks := [],
                 console := console s @ [(ERROR, ''Error in handleRecordingStop:''),
                                         (LOG, ''Audio chunks cleared'')],
                 awaitingTranscription := rest\<rparr>)"
    using assms by (simp add: handleRecordingStop_response_def finally_clear_def console_log_def)
  have "step (TranscribeSettles (Resolves response) ty') s
      = Some (handleRecordingStop_response (Resolves response) ty' ?resumed)"
    using assms by simp
  also have "handleRecordingStop_response (Resolves response) ty' ?resumed
      = ?resumed\<lparr>audioChunks := [], console := ?c\<rparr>"
    by (rule response_changes_buffer_and_console)
  finally have success: "step (TranscribeSettles (Resolves response) ty') s
      = Some (?resumed\<lparr>audioChunks := [], console := ?c\<rparr>)" .
  have "map_option (\<lambda>s'. s'\<lparr>console := ?c\<rparr>) (step (TranscribeSettles (Rejects e) ty) s)
      = Some (?resumed\<lparr>audioChunks := [], console := ?c\<rparr>)"
    unfolding failure by simp
  with success have "step (TranscribeSettles (Resolves response) ty') s
      = map_option (\<lambda>s'. s'\<lparr>console := ?c\<rparr>) (step (TranscribeSettles (Rejects e) ty) s)"
    by (simp only:)
  then have "\<exists>c. step (TranscribeSettles (Resolves response) ty') s
      = map_option (\<lambda>s'. s'\<lparr>console := c\<rparr>) (step (TranscribeSettles (Rejects e) ty) s)"
    by (rule exI)
  with failure show ?thesis by (rule conjI)
qed

theorem failed_transcription_keeps_session_witness:
  "awaitingTranscription (renderer_initial\<lparr>audioChunks := [Blob [9] ''audio/webm''],
       awaitingTranscription := [replicate 1000 0],
       uploads := [replicate 1000 0], recorders := [MR_inactive], mediaRecorder := Some 0\<rparr>)
     = [replicate 1000 0]
   \<and> map_option (\<lambda>s. (isRecording s, mediaRecorder s, recorders s, audioChunks s, uploads s))
       (step (TranscribeSettles (Rejects (ThrownError ''Error'' ''Transcription failed: network down'')) (TypingResolves True))
         (renderer_initial\<lparr>audioChunks := [Blob [9] ''audio/webm''],
       awaitingTranscription := [replicate 1000 0],
            uploads := [replicate 1000 0], recorders := [MR_inactive], mediaRecorder := Some 0\<rparr>))
     = Some (False, Some 0, [MR_inactive], [], [replicate 1000 0])"
proof -
  let ?s = "renderer_initial\<lparr>audioChunks := [Blob [9] ''audio/webm''],
       awaitingTranscription := [replicate 1000 0],
       uploads := [replicate 1000 0], recorders := [MR_inactive], mediaRecorder := Some 0\<rparr>"
  have q: "awaitingTranscription ?s = replicate 1000 0 # []" by simp
  from failed_transcription_keeps_session [OF q, of "ThrownError ''Error'' ''Transcription failed: network down''"
      "TypingResolves True"]
  have "step (TranscribeSettles (Rejects (ThrownError ''Error'' ''Transcription failed: network down'')) (TypingResolves True)) ?s
       = Some (?s\<lparr>audioChunks := [],
                 console := console ?s @ [(ERROR, ''Error in handleRecordingStop:''),
                                         (LOG, ''Audio chunks cleared'')],
                 awaitingTranscription := []\<rparr>)"
    by blast
  then show ?thesis by (simp add: renderer_initial_def)
qed

end
